theory Spec2Isabelle
  imports Main "HOL-Library.Word" "HOL-Library.Sublist"
begin

section \<open>Values of the script: bytes, strings, exceptions\<close>

text \<open>
  \<^verbatim>\<open>testrabbit.py\<close> is a straight-line script: it opens a TCP connection, sends the
  AMQP 0-9-1 protocol header and four method frames, and reads from the socket after each
  of them. A Python \<^verbatim>\<open>bytes\<close> object is a list of 8-bit words, a Python \<^verbatim>\<open>int\<close> is an
  \<^typ>\<open>int\<close>, a Python \<^verbatim>\<open>str\<close> is the list of its code points.
\<close>

type_synonym byte = "8 word"
type_synonym bytes = "byte list"
type_synonym pystr = "nat list"

text \<open>The format characters the script hands to \<^verbatim>\<open>struct.pack\<close>.\<close>

datatype fmt = B | H | I

text \<open>
  The exceptions the script can end with: \<^verbatim>\<open>struct.error\<close> (with the format character
  whose range check failed), \<^verbatim>\<open>UnicodeEncodeError\<close> from \<^verbatim>\<open>str.encode\<close>,
  \<^verbatim>\<open>OSError\<close> from a socket call, and, from \<^verbatim>\<open>socket.create_connection\<close> before any
  connection is tried, \<^verbatim>\<open>UnicodeError\<close> for a host name the IDNA codec refuses and
  \<^verbatim>\<open>OverflowError\<close> for a port that does not fit a C \<^verbatim>\<open>long\<close>.
\<close>

datatype error =
  StructError fmt | UnicodeEncodeError | OSError | UnicodeError | OverflowError

definition str :: "string \<Rightarrow> pystr" where
  "str s = map of_char s"

subsection \<open>\<^verbatim>\<open>str.encode()\<close>: UTF-8, strict\<close>

text \<open>
  One code point. A surrogate (U+D800 to U+DFFF) cannot be encoded and raises; a Python
  string holds no code point from U+110000 on, so the last branch is the four-byte form.
\<close>

definition utf8 :: "nat \<Rightarrow> error + bytes" where
  "utf8 c =
     (if c < 0x80 then Inr [of_nat c]
      else if c < 0x800 then Inr [of_nat (0xC0 + c div 64), of_nat (0x80 + c mod 64)]
      else if 0xD800 \<le> c \<and> c \<le> 0xDFFF then Inl UnicodeEncodeError
      else if c < 0x10000 then
        Inr [of_nat (0xE0 + c div 4096), of_nat (0x80 + c div 64 mod 64),
             of_nat (0x80 + c mod 64)]
      else
        Inr [of_nat (0xF0 + c div 262144), of_nat (0x80 + c div 4096 mod 64),
             of_nat (0x80 + c div 64 mod 64), of_nat (0x80 + c mod 64)])"

fun encode :: "pystr \<Rightarrow> error + bytes" where
  "encode [] = Inr []"
| "encode (c # cs) =
     (case utf8 c of
        Inl e \<Rightarrow> Inl e
      | Inr b \<Rightarrow> (case encode cs of Inl e \<Rightarrow> Inl e | Inr bs \<Rightarrow> Inr (b @ bs)))"

subsection \<open>\<^verbatim>\<open>struct.pack\<close> in network byte order\<close>

text \<open>
  \<^verbatim>\<open>struct.pack('!...', v1, ...)\<close>: each value is range-checked against its format
  character, in order, and written big-endian in 1, 2 or 4 bytes. A value out of range
  raises \<^verbatim>\<open>struct.error\<close>. The format string and its values are given as one list of
  pairs, so their numbers always agree, as they do at every call of the script.
\<close>

fun pack1 :: "fmt \<Rightarrow> int \<Rightarrow> error + bytes" where
  "pack1 B n = (if 0 \<le> n \<and> n < 256 then Inr [word_of_int n] else Inl (StructError B))"
| "pack1 H n =
     (if 0 \<le> n \<and> n < 65536 then Inr [word_of_int (n div 256), word_of_int n]
      else Inl (StructError H))"
| "pack1 I n =
     (if 0 \<le> n \<and> n < 4294967296
      then Inr [word_of_int (n div 16777216), word_of_int (n div 65536),
                word_of_int (n div 256), word_of_int n]
      else Inl (StructError I))"

fun struct_pack :: "(fmt \<times> int) list \<Rightarrow> error + bytes" where
  "struct_pack [] = Inr []"
| "struct_pack ((f, n) # r) =
     (case pack1 f n of
        Inl e \<Rightarrow> Inl e
      | Inr b \<Rightarrow> (case struct_pack r of Inl e \<Rightarrow> Inl e | Inr bs \<Rightarrow> Inr (b @ bs)))"

text \<open>\<^verbatim>\<open>sep.join(parts)\<close> on bytes.\<close>

fun join :: "bytes \<Rightarrow> bytes list \<Rightarrow> bytes" where
  "join sep [] = []"
| "join sep [x] = x"
| "join sep (x # y # r) = x @ sep @ join sep (y # r)"

text \<open>Reading a big-endian field back as a number (used to state what a field holds).\<close>

definition be_nat :: "bytes \<Rightarrow> nat" where
  "be_nat bs = foldl (\<lambda>a b. 256 * a + unat b) 0 bs"

section \<open>The socket and the peer behind it\<close>

text \<open>
  What the script does to the outside world, in order: the trace of a run.
\<close>

datatype event =
    Connect pystr int
  | Sendall bytes
  | Recv bytes
  | Print bytes
  | Close

text \<open>
  The world a run meets. \<open>accepts\<close>: whether the TCP connection is established, once
  host and port have passed the checks of \<^verbatim>\<open>socket.create_connection\<close>. \<open>converts\<close>:
  whether the IDNA codec converts a host name that is not pure ASCII (nameprep and
  punycode, whose tables are not part of this model, are taken as given).
  \<open>tx\<close>: how the successive calls of \<^verbatim>\<open>sendall\<close> end (\<open>True\<close> returns, \<open>False\<close> raises
  \<^verbatim>\<open>OSError\<close>). \<open>rx\<close>: what the successive calls of \<^verbatim>\<open>recv\<close> find (\<open>Some bs\<close> returns
  \<open>bs\<close>, the empty string when the peer has closed; \<open>None\<close> raises \<^verbatim>\<open>OSError\<close>). A call
  that finds its list exhausted never returns: the socket has no timeout.
  \<open>trace\<close>: the events so far.
\<close>

record world =
  accepts :: bool
  converts :: "pystr \<Rightarrow> bool"
  tx :: "bool list"
  rx :: "bytes option list"
  trace :: "event list"

text \<open>How a statement ends: it returns, it raises, or it blocks for ever.\<close>

datatype 'a res = Ret 'a | Raise error | Block

type_synonym 'a io = "world \<Rightarrow> 'a res \<times> world"

definition io_bind :: "'a io \<Rightarrow> ('a \<Rightarrow> 'b io) \<Rightarrow> 'b io" where
  "io_bind m f w =
     (case m w of
        (Ret x, w') \<Rightarrow> f x w'
      | (Raise e, w') \<Rightarrow> (Raise e, w')
      | (Block, w') \<Rightarrow> (Block, w'))"

text \<open>A pure computation that may raise.\<close>

definition lift :: "error + 'a \<Rightarrow> 'a io" where
  "lift r w = (case r of Inl e \<Rightarrow> (Raise e, w) | Inr x \<Rightarrow> (Ret x, w))"

text \<open>
  \<^verbatim>\<open>socket.create_connection((host, port))\<close> resolves the address first. The host, a
  \<^verbatim>\<open>str\<close>, goes through the IDNA codec: the empty name passes; a pure ASCII name is split
  at its dots, and every label but the last must have from 1 to 63 characters, the last
  at most 63; otherwise \<^verbatim>\<open>UnicodeError\<close> is raised. The port, an \<^verbatim>\<open>int\<close>, must fit a C
  \<^verbatim>\<open>long\<close> (64 bits here), otherwise \<^verbatim>\<open>OverflowError\<close> is raised. Every later failure,
  of the resolver or of the connection, is an \<^verbatim>\<open>OSError\<close>.
\<close>

fun labels :: "pystr \<Rightarrow> pystr list" where
  "labels [] = [[]]"
| "labels (c # cs) =
     (if c = 46 then [] # labels cs
      else (case labels cs of [] \<Rightarrow> [[c]] | l # ls \<Rightarrow> (c # l) # ls))"

definition idna_ok :: "world \<Rightarrow> pystr \<Rightarrow> bool" where
  "idna_ok w host =
     (if host = [] then True
      else if list_all (\<lambda>c. c < 128) host then
        list_all (\<lambda>l. 0 < length l \<and> length l < 64) (butlast (labels host))
        \<and> length (last (labels host)) < 64
      else converts w host)"

definition connect_error :: "world \<Rightarrow> pystr \<Rightarrow> int \<Rightarrow> error option" where
  "connect_error w host port =
     (if \<not> idna_ok w host then Some UnicodeError
      else if port < - 9223372036854775808 \<or> 9223372036854775807 < port
        then Some OverflowError
      else if \<not> accepts w then Some OSError
      else None)"

definition create_connection :: "pystr \<Rightarrow> int \<Rightarrow> unit io" where
  "create_connection host port w =
     (case connect_error w host port of
        Some e \<Rightarrow> (Raise e, w)
      | None \<Rightarrow> (Ret (), w\<lparr>trace := trace w @ [Connect host port]\<rparr>))"

definition sendall :: "bytes \<Rightarrow> unit io" where
  "sendall bs w =
     (case tx w of
        [] \<Rightarrow> (Block, w)
      | ok # rest \<Rightarrow>
          if ok then (Ret (), w\<lparr>tx := rest, trace := trace w @ [Sendall bs]\<rparr>)
          else (Raise OSError, w\<lparr>tx := rest\<rparr>))"

text \<open>\<^verbatim>\<open>recv(bufsize)\<close> hands over at most \<open>bufsize\<close> bytes.\<close>

definition recv :: "nat \<Rightarrow> bytes io" where
  "recv bufsize w =
     (case rx w of
        [] \<Rightarrow> (Block, w)
      | None # rest \<Rightarrow> (Raise OSError, w\<lparr>rx := rest\<rparr>)
      | Some bs # rest \<Rightarrow>
          (Ret (take bufsize bs),
           w\<lparr>rx := rest, trace := trace w @ [Recv (take bufsize bs)]\<rparr>))"

definition print_bytes :: "bytes \<Rightarrow> unit io" where
  "print_bytes bs w = (Ret (), w\<lparr>trace := trace w @ [Print bs]\<rparr>)"

definition close :: "unit io" where
  "close w = (Ret (), w\<lparr>trace := trace w @ [Close]\<rparr>)"

section \<open>The script\<close>

record config =
  HOST :: pystr
  PORT :: int
  USER :: pystr
  PASS :: pystr
  VHOST :: pystr
  QUEUE :: pystr

text \<open>The placeholders the script ships with.\<close>

definition source_config :: config where
  "source_config =
     \<lparr>HOST = str ''10.31.220.52'', PORT = 5672, USER = str ''<user>'',
      PASS = str ''<pass>'', VHOST = str ''<vhost>'', QUEUE = str ''<queue-name>''\<rparr>"

subsection \<open>\<^verbatim>\<open>send_frame\<close>\<close>

text \<open>
  The bytes \<^verbatim>\<open>send_frame\<close> builds:
  \<^verbatim>\<open>struct.pack('!BHI', frame_type, channel, len(payload)) + payload + b'\xCE'\<close>.
\<close>

definition frame_bytes :: "int \<Rightarrow> int \<Rightarrow> bytes \<Rightarrow> error + bytes" where
  "frame_bytes frame_type channel payload =
     (case struct_pack [(B, frame_type), (H, channel), (I, int (length payload))] of
        Inl e \<Rightarrow> Inl e
      | Inr hdr \<Rightarrow> Inr (hdr @ payload @ [0xCE]))"

definition send_frame :: "int \<Rightarrow> int \<Rightarrow> bytes \<Rightarrow> unit io" where
  "send_frame frame_type channel payload =
     io_bind (lift (frame_bytes frame_type channel payload)) sendall"

subsection \<open>The method payloads\<close>

text \<open>\<^verbatim>\<open>b"AMQP\x00\x00\x09\x01"\<close>\<close>

definition protocol_header :: bytes where
  "protocol_header = [0x41, 0x4D, 0x51, 0x50, 0x00, 0x00, 0x09, 0x01]"

text \<open>\<^verbatim>\<open>resp = b"\0".join([authzid, authcid, passwd])\<close>\<close>

definition plain_response :: "bytes \<Rightarrow> bytes \<Rightarrow> bytes \<Rightarrow> bytes" where
  "plain_response authzid authcid passwd = join [0x00] [authzid, authcid, passwd]"

text \<open>
  Step 3 of the script, up to \<^verbatim>\<open>method\<close>: connection.start-ok. The mechanism literal is
  \<^verbatim>\<open>b'\x00\x0cPLAIN'\<close>.
\<close>

definition start_ok_method :: "config \<Rightarrow> error + bytes" where
  "start_ok_method cfg =
     (case encode (USER cfg) of Inl e \<Rightarrow> Inl e | Inr authzid \<Rightarrow>
      case encode (USER cfg) of Inl e \<Rightarrow> Inl e | Inr authcid \<Rightarrow>
      case encode (PASS cfg) of Inl e \<Rightarrow> Inl e | Inr passwd \<Rightarrow>
      let resp = plain_response authzid authcid passwd in
      case struct_pack [(I, int (length resp))] of Inl e \<Rightarrow> Inl e | Inr n \<Rightarrow>
      let args = [0x00, 0x0C, 0x50, 0x4C, 0x41, 0x49, 0x4E] @ n @ resp @ [0x00] in
      case struct_pack [(H, 10), (H, 11)] of Inl e \<Rightarrow> Inl e | Inr ids \<Rightarrow>
      Inr (ids @ args))"

text \<open>Step 5: connection.open with the virtual host.\<close>

definition open_method :: "config \<Rightarrow> error + bytes" where
  "open_method cfg =
     (case encode (VHOST cfg) of Inl e \<Rightarrow> Inl e | Inr args \<Rightarrow>
      case struct_pack [(H, 10), (H, 40), (B, int (length args))] of Inl e \<Rightarrow> Inl e
      | Inr ids \<Rightarrow> Inr (ids @ args @ [0x00, 0x00]))"

text \<open>Step 6: channel.open.\<close>

definition channel_open_method :: "error + bytes" where
  "channel_open_method = struct_pack [(H, 20), (H, 10)]"

text \<open>Step 7: queue.declare; the last byte is the flags byte \<^verbatim>\<open>0b00001000\<close>.\<close>

definition queue_declare_payload :: "config \<Rightarrow> error + bytes" where
  "queue_declare_payload cfg =
     (case encode (QUEUE cfg) of Inl e \<Rightarrow> Inl e | Inr qname \<Rightarrow>
      case struct_pack [(H, 50), (H, 10), (H, 1)] of Inl e \<Rightarrow> Inl e | Inr ids \<Rightarrow>
      case struct_pack [(B, int (length qname))] of Inl e \<Rightarrow> Inl e | Inr n \<Rightarrow>
      case struct_pack [(B, 8)] of Inl e \<Rightarrow> Inl e | Inr flags \<Rightarrow>
      Inr (ids @ [0x00] @ n @ qname @ flags))"

subsection \<open>The module body\<close>

definition main :: "config \<Rightarrow> unit io" where
  "main cfg =
     io_bind (create_connection (HOST cfg) (PORT cfg)) (\<lambda>_.
     io_bind (sendall protocol_header) (\<lambda>_.
     io_bind (recv 4096) (\<lambda>_.
     io_bind (lift (start_ok_method cfg)) (\<lambda>method.
     io_bind (send_frame 1 0 method) (\<lambda>_.
     io_bind (recv 4096) (\<lambda>_.
     io_bind (lift (open_method cfg)) (\<lambda>method.
     io_bind (send_frame 1 0 method) (\<lambda>_.
     io_bind (recv 4096) (\<lambda>_.
     io_bind (lift channel_open_method) (\<lambda>method.
     io_bind (send_frame 1 1 method) (\<lambda>_.
     io_bind (recv 4096) (\<lambda>_.
     io_bind (lift (queue_declare_payload cfg)) (\<lambda>payload.
     io_bind (send_frame 1 1 payload) (\<lambda>_.
     io_bind (recv 4096) (\<lambda>resp.
     io_bind (print_bytes resp) (\<lambda>_.
     close))))))))))))))))"

subsection \<open>The frames the script passes to \<^verbatim>\<open>sendall\<close>\<close>

text \<open>
  Each call \<^verbatim>\<open>send_frame(s, t, c, method)\<close> of the module body, with the payload built
  just before it: the bytes that reach \<^verbatim>\<open>sendall\<close>, or the exception raised on the way.
\<close>

definition start_ok_frame :: "config \<Rightarrow> error + bytes" where
  "start_ok_frame cfg =
     (case start_ok_method cfg of Inl e \<Rightarrow> Inl e | Inr m \<Rightarrow> frame_bytes 1 0 m)"

definition open_frame :: "config \<Rightarrow> error + bytes" where
  "open_frame cfg = (case open_method cfg of Inl e \<Rightarrow> Inl e | Inr m \<Rightarrow> frame_bytes 1 0 m)"

definition channel_open_frame :: "error + bytes" where
  "channel_open_frame =
     (case channel_open_method of Inl e \<Rightarrow> Inl e | Inr m \<Rightarrow> frame_bytes 1 1 m)"

definition queue_declare_frame :: "config \<Rightarrow> error + bytes" where
  "queue_declare_frame cfg =
     (case queue_declare_payload cfg of Inl e \<Rightarrow> Inl e | Inr m \<Rightarrow> frame_bytes 1 1 m)"

text \<open>
  The module body after the connection is made (from step 1 on), with each payload and
  its envelope built in one step.
\<close>

definition after_connect :: "config \<Rightarrow> unit io" where
  "after_connect cfg =
     io_bind (sendall protocol_header) (\<lambda>_.
     io_bind (recv 4096) (\<lambda>_.
     io_bind (lift (start_ok_frame cfg)) (\<lambda>bs.
     io_bind (sendall bs) (\<lambda>_.
     io_bind (recv 4096) (\<lambda>_.
     io_bind (lift (open_frame cfg)) (\<lambda>bs.
     io_bind (sendall bs) (\<lambda>_.
     io_bind (recv 4096) (\<lambda>_.
     io_bind (lift channel_open_frame) (\<lambda>bs.
     io_bind (sendall bs) (\<lambda>_.
     io_bind (recv 4096) (\<lambda>_.
     io_bind (lift (queue_declare_frame cfg)) (\<lambda>bs.
     io_bind (sendall bs) (\<lambda>_.
     io_bind (recv 4096) (\<lambda>resp.
     io_bind (print_bytes resp) (\<lambda>_.
     close)))))))))))))))"

section \<open>Observing a run\<close>

text \<open>
  What an observer of the socket sees of an event. A sent byte string that has the shape
  of a method frame (frame type 1, then channel and length, then a payload of at least
  four bytes) shows the class and method ids its payload starts with; any other sent
  byte string shows as it is.
\<close>

datatype label = Connected | Raw bytes | Method nat nat | Received | Printed | Closed

definition method_ids :: "bytes \<Rightarrow> (nat \<times> nat) option" where
  "method_ids bs =
     (case bs of
        t # c1 # c2 # l1 # l2 # l3 # l4 # a # b # c # d # rest \<Rightarrow>
          if t = 1 then Some (be_nat [a, b], be_nat [c, d]) else None
      | _ \<Rightarrow> None)"

fun view :: "event \<Rightarrow> label" where
  "view (Connect h p) = Connected"
| "view (Sendall bs) = (case method_ids bs of Some (c, m) \<Rightarrow> Method c m | None \<Rightarrow> Raw bs)"
| "view (Recv bs) = Received"
| "view (Print bs) = Printed"
| "view Close = Closed"

text \<open>
  The whole handshake as the observer sees it: the protocol header, connection.start-ok
  (10,11), connection.open (10,40), channel.open (20,10), queue.declare (50,10), one
  receive after each.
\<close>

definition script :: "label list" where
  "script = [Connected, Raw [0x41, 0x4D, 0x51, 0x50, 0x00, 0x00, 0x09, 0x01], Received,
     Method 10 11, Received, Method 10 40, Received, Method 20 10, Received, Method 50 10,
     Received, Printed, Closed]"

text \<open>The byte strings passed to \<^verbatim>\<open>sendall\<close>, in order.\<close>

fun sent :: "event list \<Rightarrow> bytes list" where
  "sent [] = []"
| "sent (Sendall bs # es) = bs # sent es"
| "sent (e # es) = sent es"

text \<open>
  Everything of a world but the bytes it delivers: whether it accepts, how each
  \<^verbatim>\<open>sendall\<close> ends, and which calls of \<^verbatim>\<open>recv\<close> raise.
\<close>

definition shape :: "world \<Rightarrow> bool \<times> bool list \<times> bool list" where
  "shape w = (accepts w, tx w, map (\<lambda>r. r = None) (rx w))"

text \<open>
  A peer that accepts the connection, takes every \<^verbatim>\<open>sendall\<close>, and answers the
  successive calls of \<^verbatim>\<open>recv\<close> with \<open>rs\<close>.
\<close>

definition peer :: "bytes list \<Rightarrow> world" where
  "peer rs =
     \<lparr>accepts = True, converts = (\<lambda>_. True), tx = map (\<lambda>_. True) rs, rx = map Some rs,
      trace = []\<rparr>"

text \<open>A name of 256 letters \<open>a\<close>: one byte too long for a short string.\<close>

definition long_name :: pystr where
  "long_name = replicate 256 97"

subsection \<open>Judgements about runs\<close>

text \<open>
  \<open>post m Q\<close>: whenever \<open>m\<close> ends with result \<open>r\<close>, having added the events seen as
  \<open>q\<close> to the trace, \<open>Q r q\<close> holds.
\<close>

definition post :: "'a io \<Rightarrow> ('a res \<Rightarrow> label list \<Rightarrow> bool) \<Rightarrow> bool" where
  "post m Q \<longleftrightarrow>
     (\<forall>w r w'. m w = (r, w') \<longrightarrow>
        (\<exists>q. map view (trace w') = map view (trace w) @ q \<and> Q r q))"

definition sock_failure :: "'a res \<Rightarrow> bool" where
  "sock_failure r \<longleftrightarrow> r = Raise OSError \<or> r = Block"

text \<open>
  Two worlds that differ at most in the bytes they deliver and have been sent the same
  byte strings; two results that end the same way; two statements that keep both.
\<close>

definition sim :: "world \<Rightarrow> world \<Rightarrow> bool" where
  "sim w1 w2 \<longleftrightarrow> shape w1 = shape w2 \<and> sent (trace w1) = sent (trace w2)"

definition res_rel :: "('a \<Rightarrow> 'b \<Rightarrow> bool) \<Rightarrow> 'a res \<Rightarrow> 'b res \<Rightarrow> bool" where
  "res_rel R r1 r2 =
     (case r1 of
        Ret x \<Rightarrow> (case r2 of Ret y \<Rightarrow> R x y | _ \<Rightarrow> False)
      | Raise e \<Rightarrow> r2 = Raise e
      | Block \<Rightarrow> r2 = Block)"

definition rel :: "('a \<Rightarrow> 'b \<Rightarrow> bool) \<Rightarrow> 'a io \<Rightarrow> 'b io \<Rightarrow> bool" where
  "rel R m1 m2 \<longleftrightarrow>
     (\<forall>w1 w2. sim w1 w2 \<longrightarrow>
        res_rel R (fst (m1 w1)) (fst (m2 w2)) \<and> sim (snd (m1 w1)) (snd (m2 w2)))"

section \<open>The frame decoder of the specification\<close>

text \<open>
  Modelled from the spec: the frame decoder \<^verbatim>\<open>decode(bytes)\<close> of section 4.1, which the
  script does not have (it never looks into what \<^verbatim>\<open>recv\<close> returns). The envelope is
  \<^verbatim>\<open>[type:1][channel:2][length:4][payload][0xCE]\<close> in network byte order. With fewer
  bytes than the seven of the header, or than the declared length asks for, the result
  is \<open>NeedMoreBytes\<close>; with a terminator other than \<^verbatim>\<open>0xCE\<close> it is \<open>MalformedFrame\<close>;
  otherwise it is the frame, its type kept as the byte on the wire.
\<close>

datatype decoded = Frame byte nat bytes | NeedMoreBytes | MalformedFrame

definition decode :: "bytes \<Rightarrow> decoded" where
  "decode bs =
     (if length bs < 7 then NeedMoreBytes
      else let n = be_nat (take 4 (drop 3 bs)) in
        if length bs < 7 + n + 1 then NeedMoreBytes
        else if bs ! (7 + n) \<noteq> 0xCE then MalformedFrame
        else Frame (bs ! 0) (be_nat (take 2 (drop 1 bs))) (take n (drop 7 bs)))"

section \<open>The SASL PLAIN response\<close>

lemma join3: "join sep [a, b, c] = a @ sep @ b @ sep @ c"
  by simp

text \<open>
  C3. For all byte strings authzid, authcid and password, the response the script builds
  is authzid, a NUL byte, authcid, a NUL byte, password; for \<open>u\<close>, \<open>u\<close>, \<open>p\<close> it is the
  five bytes \<^verbatim>\<open>u\x00u\x00p\<close>.
\<close>

theorem plain_response_layout:
  "plain_response authzid authcid passwd = authzid @ [0x00] @ authcid @ [0x00] @ passwd
   \<and> plain_response [0x75] [0x75] [0x70] = [0x75, 0x00, 0x75, 0x00, 0x70]"
  by (simp add: plain_response_def)

section \<open>The frame envelope\<close>

lemma frame_bytes_eq:
  "frame_bytes t c p =
     (if 0 \<le> t \<and> t < 256 then
        if 0 \<le> c \<and> c < 65536 then
          if int (length p) < 4294967296 then
            Inr ([word_of_int t, word_of_int (c div 256), word_of_int c,
                  word_of_int (int (length p) div 16777216),
                  word_of_int (int (length p) div 65536),
                  word_of_int (int (length p) div 256), word_of_int (int (length p))]
                 @ p @ [0xCE])
          else Inl (StructError I)
        else Inl (StructError H)
      else Inl (StructError B))"
  by (simp add: frame_bytes_def)

lemma unat_byte: "unat (word_of_int k :: byte) = nat (k mod 256)"
  by (simp add: unat_eq_nat_uint uint_word_of_int)

lemma be_nat2: "be_nat [a, b] = 256 * unat a + unat b"
  by (simp add: be_nat_def)

lemma be_nat2_int:
  assumes "0 \<le> n" and "n < 65536"
  shows "be_nat [word_of_int (n div 256), word_of_int n] = nat n"
proof -
  have "n div 256 < 256" using assms by simp
  then have "(n div 256) mod 256 = n div 256" using assms by simp
  then have "int (be_nat [word_of_int (n div 256), word_of_int n]) =
             256 * (n div 256) + n mod 256"
    using assms by (simp add: be_nat_def unat_byte pos_imp_zdiv_nonneg_iff)
  also have "\<dots> = n" by simp
  finally show ?thesis by simp
qed

lemma be_nat4_int:
  assumes "0 \<le> n" and "n < 4294967296"
  shows "be_nat [word_of_int (n div 16777216), word_of_int (n div 65536),
                 word_of_int (n div 256), word_of_int n] = nat n"
proof -
  have a: "(n div 16777216) mod 256 = n div 16777216" using assms by simp
  have b: "n div 65536 = (n div 256) div 256" "n div 16777216 = ((n div 256) div 256) div 256"
    by (simp_all add: zdiv_zmult2_eq)
  have "int (be_nat [word_of_int (n div 16777216), word_of_int (n div 65536),
                 word_of_int (n div 256), word_of_int n]) =
        256 * (256 * (256 * (n div 16777216) + (n div 65536) mod 256) + (n div 256) mod 256)
          + n mod 256"
    using assms a by (simp add: be_nat_def unat_byte)
  also have "\<dots> = n" unfolding b by simp
  finally show ?thesis by simp
qed

lemma be_nat4_len:
  "n < 4294967296 \<Longrightarrow>
   be_nat [word_of_int (int n div 16777216), word_of_int (int n div 65536),
           word_of_int (int n div 256), word_of_nat n] = n"
  using be_nat4_int[of "int n"] by simp

lemma frame_bytes_split:
  assumes "frame_bytes t c p = Inr fb"
  shows "\<exists>hdr. fb = hdr @ p @ [0xCE] \<and> length hdr = 7
           \<and> be_nat (take 4 (drop 3 hdr)) = length p
           \<and> uint (hdr ! 0) = t \<and> int (be_nat (take 2 (drop 1 hdr))) = c"
  using assms
  by (auto simp: frame_bytes_eq be_nat4_len be_nat2_int uint_word_of_int split: if_splits)

lemma frame_bytes_in_range:
  assumes "0 \<le> t" and "t < 256" and "0 \<le> c" and "c < 65536" and "length p < 4294967296"
  shows "\<exists>fb. frame_bytes t c p = Inr fb"
  using assms by (simp add: frame_bytes_eq)

lemma send_frame_sendall: "frame_bytes t c p = Inr fb \<Longrightarrow> send_frame t c p = sendall fb"
  by (rule ext) (simp add: send_frame_def io_bind_def lift_def)

text \<open>
  C1, as the code has it. For a frame type from 0 to 255, a channel from 0 to 65535 and a
  payload of fewer than \<open>2^32\<close> bytes, \<^verbatim>\<open>send_frame\<close> passes to \<^verbatim>\<open>sendall\<close> exactly one
  type byte, two channel bytes, four length bytes, the payload and the byte \<^verbatim>\<open>0xCE\<close>;
  read big-endian, the type byte is the frame type, the channel bytes are the channel and
  the length bytes are the length of the payload.
\<close>

theorem send_frame_layout:
  assumes "0 \<le> frame_type" and "frame_type < 256" and "0 \<le> channel" and "channel < 65536"
    and "length payload < 4294967296"
  shows "\<exists>t c1 c2 l1 l2 l3 l4.
           frame_bytes frame_type channel payload
             = Inr ([t] @ [c1, c2] @ [l1, l2, l3, l4] @ payload @ [0xCE])
         \<and> send_frame frame_type channel payload
             = sendall ([t] @ [c1, c2] @ [l1, l2, l3, l4] @ payload @ [0xCE])
         \<and> uint t = frame_type \<and> int (be_nat [c1, c2]) = channel
         \<and> be_nat [l1, l2, l3, l4] = length payload"
proof -
  let ?n = "int (length payload)"
  let ?fb = "[word_of_int frame_type] @ [word_of_int (channel div 256), word_of_int channel]
     @ [word_of_int (?n div 16777216), word_of_int (?n div 65536), word_of_int (?n div 256),
        word_of_int ?n] @ payload @ [0xCE]"
  have fb: "frame_bytes frame_type channel payload = Inr ?fb"
    using assms by (simp add: frame_bytes_eq)
  have t: "uint (word_of_int frame_type :: byte) = frame_type"
    using assms by (simp add: uint_word_of_int)
  have c: "int (be_nat [word_of_int (channel div 256), word_of_int channel]) = channel"
    using assms by (simp add: be_nat2_int)
  have l: "be_nat [word_of_int (?n div 16777216), word_of_int (?n div 65536),
                   word_of_int (?n div 256), word_of_int ?n] = length payload"
    using assms be_nat4_int[of ?n] by simp
  from fb send_frame_sendall[OF fb] t c l show ?thesis by blast
qed

text \<open>The channel.open frame of the script: type 1, channel 1, payload \<^verbatim>\<open>00 14 00 0A\<close>.\<close>

theorem send_frame_layout_witness:
  "\<exists>t c1 c2 l1 l2 l3 l4.
     frame_bytes 1 1 [0, 20, 0, 10]
       = Inr ([t] @ [c1, c2] @ [l1, l2, l3, l4] @ [0, 20, 0, 10] @ [0xCE])
     \<and> send_frame 1 1 [0, 20, 0, 10]
       = sendall ([t] @ [c1, c2] @ [l1, l2, l3, l4] @ [0, 20, 0, 10] @ [0xCE])
     \<and> uint t = 1 \<and> int (be_nat [c1, c2]) = 1
     \<and> be_nat [l1, l2, l3, l4] = length [0, 20, 0, 10 :: byte]"
  using send_frame_layout[of 1 1 "[0, 20, 0, 10]"] by simp

text \<open>
  C1 as stated fails outside these ranges: for frame type 256 \<^verbatim>\<open>struct.pack\<close> raises
  \<^verbatim>\<open>struct.error\<close> on the \<^verbatim>\<open>B\<close> field and nothing reaches the socket.
\<close>

theorem send_frame_every_type_counterexample:
  "frame_bytes 256 0 [] = Inl (StructError B)
   \<and> send_frame 256 0 [] (peer [[]]) = (Raise (StructError B), peer [[]])"
  by (simp add: frame_bytes_eq send_frame_def io_bind_def lift_def)

section \<open>Decoding what the script encodes\<close>

lemma decode_frame_bytes:
  assumes "frame_bytes t c p = Inr fb"
  shows "\<exists>b. decode fb = Frame b (nat c) p \<and> uint b = t"
proof -
  from frame_bytes_split[OF assms] obtain hdr where h: "fb = hdr @ p @ [0xCE]" "length hdr = 7"
    "be_nat (take 4 (drop 3 hdr)) = length p" "uint (hdr ! 0) = t"
    "int (be_nat (take 2 (drop 1 hdr))) = c" by blast
  then have "decode fb = Frame (hdr ! 0) (be_nat (take 2 (drop 1 hdr))) p"
    by (simp add: decode_def nth_append)
  with h show ?thesis by auto
qed

lemma decode_truncated:
  assumes "frame_bytes t c p = Inr fb" and "k < length fb"
  shows "decode (take k fb) = NeedMoreBytes"
proof -
  from frame_bytes_split[OF assms(1)] obtain hdr where h: "fb = hdr @ p @ [0xCE]"
    "length hdr = 7" "be_nat (take 4 (drop 3 hdr)) = length p" by blast
  show ?thesis
  proof (cases "k < 7")
    case True
    with assms(2) show ?thesis by (simp add: decode_def)
  next
    case False
    with h assms(2) have "take 4 (drop 3 (take k fb)) = take 4 (drop 3 hdr)"
      by simp
    with h assms(2) False show ?thesis by (simp add: decode_def)
  qed
qed

lemma decode_corrupted:
  assumes "frame_bytes t c p = Inr fb" and "x \<noteq> 0xCE"
  shows "decode (butlast fb @ [x]) = MalformedFrame"
proof -
  from frame_bytes_split[OF assms(1)] obtain hdr where h: "fb = hdr @ p @ [0xCE]"
    "length hdr = 7" "be_nat (take 4 (drop 3 hdr)) = length p" by blast
  then have "butlast fb @ [x] = hdr @ p @ [x]" by (simp add: butlast_append)
  with h assms(2) show ?thesis by (simp add: decode_def nth_append)
qed

text \<open>
  C6. For a frame type from 0 to 255, a channel from 0 to 65535 and a payload of fewer
  than \<open>2^32\<close> bytes, the bytes \<^verbatim>\<open>send_frame\<close> builds decode to a frame with the same
  type, channel and payload.
\<close>

theorem frame_roundtrip:
  assumes "0 \<le> frame_type" and "frame_type < 256" and "0 \<le> channel" and "channel < 65536"
    and "length payload < 4294967296"
  shows "\<exists>fb b. frame_bytes frame_type channel payload = Inr fb
           \<and> decode fb = Frame b (nat channel) payload \<and> uint b = frame_type"
proof -
  from frame_bytes_in_range[OF assms] obtain fb
    where fb: "frame_bytes frame_type channel payload = Inr fb" ..
  from decode_frame_bytes[OF fb] fb show ?thesis by blast
qed

text \<open>A heartbeat-sized frame: type 8, channel 0, empty payload; and the script's
  channel.open frame.\<close>

theorem frame_roundtrip_witness:
  "(\<exists>fb b. frame_bytes 8 0 [] = Inr fb \<and> decode fb = Frame b (nat 0) [] \<and> uint b = 8)
   \<and> (\<exists>fb b. frame_bytes 1 1 [0, 20, 0, 10] = Inr fb
          \<and> decode fb = Frame b (nat 1) [0, 20, 0, 10] \<and> uint b = 1)"
  using frame_roundtrip[of 8 0 "[]"] frame_roundtrip[of 1 1 "[0, 20, 0, 10]"] by simp

text \<open>
  C7. On every byte sequence the decoder returns a frame, \<open>NeedMoreBytes\<close> or
  \<open>MalformedFrame\<close>. With fewer bytes than the header or than the declared length asks
  for it returns \<open>NeedMoreBytes\<close>; with all the bytes there and a terminator other than
  \<^verbatim>\<open>0xCE\<close> it returns \<open>MalformedFrame\<close>. In particular every proper prefix of a frame the
  script builds gives \<open>NeedMoreBytes\<close>, never a frame, and such a frame with its last
  byte changed gives \<open>MalformedFrame\<close>.
\<close>

theorem decode_results:
  "(decode bs = NeedMoreBytes \<or> decode bs = MalformedFrame \<or> (\<exists>t c p. decode bs = Frame t c p))
   \<and> (length bs < 7 \<or> length bs < 8 + be_nat (take 4 (drop 3 bs))
        \<longrightarrow> decode bs = NeedMoreBytes)
   \<and> (7 \<le> length bs \<and> 8 + be_nat (take 4 (drop 3 bs)) \<le> length bs
        \<and> bs ! (7 + be_nat (take 4 (drop 3 bs))) \<noteq> 0xCE
        \<longrightarrow> decode bs = MalformedFrame)
   \<and> (frame_bytes frame_type channel payload = Inr fb \<and> k < length fb
        \<longrightarrow> decode (take k fb) = NeedMoreBytes)
   \<and> (frame_bytes frame_type channel payload = Inr fb \<and> x \<noteq> 0xCE
        \<longrightarrow> decode (butlast fb @ [x]) = MalformedFrame)"
proof (intro conjI impI)
  show "decode bs = NeedMoreBytes \<or> decode bs = MalformedFrame
        \<or> (\<exists>t c p. decode bs = Frame t c p)"
    by (cases "decode bs") auto
next
  assume "length bs < 7 \<or> length bs < 8 + be_nat (take 4 (drop 3 bs))"
  then show "decode bs = NeedMoreBytes" by (auto simp: decode_def Let_def)
next
  assume "7 \<le> length bs \<and> 8 + be_nat (take 4 (drop 3 bs)) \<le> length bs
          \<and> bs ! (7 + be_nat (take 4 (drop 3 bs))) \<noteq> 0xCE"
  then show "decode bs = MalformedFrame" by (auto simp: decode_def Let_def)
next
  assume "frame_bytes frame_type channel payload = Inr fb \<and> k < length fb"
  then show "decode (take k fb) = NeedMoreBytes" by (auto intro: decode_truncated)
next
  assume "frame_bytes frame_type channel payload = Inr fb \<and> x \<noteq> 0xCE"
  then show "decode (butlast fb @ [x]) = MalformedFrame" by (auto intro: decode_corrupted)
qed

text \<open>
  The script's channel.open frame \<^verbatim>\<open>01 00 01 00 00 00 04 00 14 00 0A CE\<close>: cut after nine
  bytes, and with the terminator replaced by \<^verbatim>\<open>0xCD\<close>.
\<close>

theorem decode_results_witness:
  "decode [1, 0, 1, 0, 0, 0, 4, 0, 20] = NeedMoreBytes
   \<and> decode [1, 0, 1, 0, 0, 0, 4, 0, 20, 0, 10, 0xCD] = MalformedFrame
   \<and> decode (take 9 [1, 0, 1, 0, 0, 0, 4, 0, 20, 0, 10, 0xCE]) = NeedMoreBytes
   \<and> decode (butlast [1, 0, 1, 0, 0, 0, 4, 0, 20, 0, 10, 0xCE] @ [0xCD]) = MalformedFrame"
proof -
  have fb: "frame_bytes 1 1 [0, 20, 0, 10] = Inr [1, 0, 1, 0, 0, 0, 4, 0, 20, 0, 10, 0xCE]"
    by (simp add: frame_bytes_eq)
  have n: "be_nat [0, 0, 0, 4] = 4" by (simp add: be_nat_def)
  show ?thesis
    using decode_results[of "[1, 0, 1, 0, 0, 0, 4, 0, 20]" 1 1 "[0, 20, 0, 10]"
        "[1, 0, 1, 0, 0, 0, 4, 0, 20, 0, 10, 0xCE]" 9 "0xCD"]
      decode_results[of "[1, 0, 1, 0, 0, 0, 4, 0, 20, 0, 10, 0xCD]" 1 1 "[0, 20, 0, 10]"
        "[1, 0, 1, 0, 0, 0, 4, 0, 20, 0, 10, 0xCE]" 9 "0xCD"]
      fb n
    by simp
qed

section \<open>The flags byte of queue.declare\<close>

text \<open>
  C5 fails on the code. The payload the script builds for queue.declare ends with the
  flags byte \<^verbatim>\<open>0b00001000\<close>, the value 8: bit 3 is its only set bit. With the flags
  packed in the order passive, durable, exclusive, auto-delete, no-wait, the first of
  them, passive, is bit 0 (or, counted from the other end, bit 7 of the byte or bit 4
  of the five): each of these is clear.
\<close>

theorem queue_declare_flags_byte:
  "queue_declare_payload source_config
     = Inr ([0, 50, 0, 10] @ [0, 1] @ [0] @ [12]
            @ [60, 113, 117, 101, 117, 101, 45, 110, 97, 109, 101, 62] @ [8])
   \<and> bit (8 :: byte) 3 \<and> \<not> bit (8 :: byte) 0 \<and> \<not> bit (8 :: byte) 4
   \<and> \<not> bit (8 :: byte) 7 \<and> (8 :: byte) = push_bit 3 1"
  by (simp add: queue_declare_payload_def source_config_def str_def utf8_def bit_numeral_simps)

section \<open>Running the script\<close>

subsection \<open>One statement after another\<close>

lemma bind_create_connection:
  "io_bind (create_connection h p) f w =
     (case connect_error w h p of
        Some e \<Rightarrow> (Raise e, w)
      | None \<Rightarrow> f () (w\<lparr>trace := trace w @ [Connect h p]\<rparr>))"
  by (simp add: io_bind_def create_connection_def split: option.splits)

lemma connect_error_cases:
  "connect_error w h p = Some e \<Longrightarrow> e = OSError \<or> e = UnicodeError \<or> e = OverflowError"
  by (auto simp: connect_error_def split: if_splits)

lemma connect_error_peer: "connect_error (peer rs) h p = connect_error (peer []) h p"
  by (simp add: connect_error_def idna_ok_def peer_def)

lemma connect_error_update [simp]:
  "connect_error (w\<lparr>tx := t\<rparr>) h p = connect_error w h p"
  "connect_error (w\<lparr>rx := r\<rparr>) h p = connect_error w h p"
  "connect_error (w\<lparr>trace := e\<rparr>) h p = connect_error w h p"
  by (simp_all add: connect_error_def idna_ok_def)

lemma bind_sendall:
  "io_bind (sendall bs) f w =
     (case tx w of [] \<Rightarrow> (Block, w)
      | ok # rest \<Rightarrow> if ok then f () (w\<lparr>tx := rest, trace := trace w @ [Sendall bs]\<rparr>)
                     else (Raise OSError, w\<lparr>tx := rest\<rparr>))"
  by (simp add: io_bind_def sendall_def split: list.splits)

lemma bind_recv:
  "io_bind (recv n) f w =
     (case rx w of [] \<Rightarrow> (Block, w)
      | None # rest \<Rightarrow> (Raise OSError, w\<lparr>rx := rest\<rparr>)
      | Some bs # rest \<Rightarrow>
          f (take n bs) (w\<lparr>rx := rest, trace := trace w @ [Recv (take n bs)]\<rparr>))"
  by (simp add: io_bind_def recv_def split: list.splits option.splits)

lemma bind_lift:
  "io_bind (lift v) f w = (case v of Inl e \<Rightarrow> (Raise e, w) | Inr x \<Rightarrow> f x w)"
  by (simp add: io_bind_def lift_def split: sum.splits)

lemma bind_print:
  "io_bind (print_bytes bs) f w = f () (w\<lparr>trace := trace w @ [Print bs]\<rparr>)"
  by (simp add: io_bind_def print_bytes_def)

lemmas binds = bind_create_connection bind_sendall bind_recv bind_lift bind_print

lemma bind_send_frame:
  "io_bind (lift v) (\<lambda>m. io_bind (send_frame t c m) f) =
   io_bind (lift (case v of Inl e \<Rightarrow> Inl e | Inr m \<Rightarrow> frame_bytes t c m))
     (\<lambda>bs. io_bind (sendall bs) f)"
  by (rule ext) (simp add: send_frame_def io_bind_def lift_def split: sum.splits)

text \<open>The module body: the connection, then the rest.\<close>

lemma main_frames:
  "main cfg =
     io_bind (create_connection (HOST cfg) (PORT cfg)) (\<lambda>_. after_connect cfg)"
  unfolding main_def after_connect_def bind_send_frame start_ok_frame_def open_frame_def
    channel_open_frame_def queue_declare_frame_def ..

subsection \<open>The four method frames\<close>

lemma method_ids_frame:
  "frame_bytes 1 ch (a # b # c # d # rest) = Inr bs \<Longrightarrow>
   method_ids bs = Some (be_nat [a, b], be_nat [c, d])"
  by (auto simp: frame_bytes_eq method_ids_def split: if_splits)

lemma start_ok_ids: "start_ok_method cfg = Inr m \<Longrightarrow> \<exists>a. m = 0 # 10 # 0 # 11 # a"
  by (auto simp: start_ok_method_def Let_def split: sum.splits)

lemma open_ids: "open_method cfg = Inr m \<Longrightarrow> \<exists>a. m = 0 # 10 # 0 # 40 # a"
  by (auto simp: open_method_def Let_def split: sum.splits if_splits)

lemma channel_open_ids: "channel_open_method = Inr [0, 20, 0, 10]"
  by (simp add: channel_open_method_def)

lemma queue_declare_ids: "queue_declare_payload cfg = Inr m \<Longrightarrow> \<exists>a. m = 0 # 50 # 0 # 10 # a"
  by (auto simp: queue_declare_payload_def Let_def split: sum.splits if_splits)

lemma view_header: "view (Sendall protocol_header) = Raw protocol_header"
  by (simp add: protocol_header_def method_ids_def)

lemma view_start_ok: "start_ok_frame cfg = Inr bs \<Longrightarrow> view (Sendall bs) = Method 10 11"
  by (auto simp: start_ok_frame_def be_nat2 split: sum.splits
      dest!: start_ok_ids dest: method_ids_frame)

lemma view_open: "open_frame cfg = Inr bs \<Longrightarrow> view (Sendall bs) = Method 10 40"
  by (auto simp: open_frame_def be_nat2 split: sum.splits
      dest!: open_ids dest: method_ids_frame)

lemma channel_open_frame_eq:
  "channel_open_frame = Inr [1, 0, 1, 0, 0, 0, 4, 0, 20, 0, 10, 0xCE]"
  by (simp add: channel_open_frame_def channel_open_ids frame_bytes_eq)

lemma view_channel_open: "channel_open_frame = Inr bs \<Longrightarrow> view (Sendall bs) = Method 20 10"
  by (auto simp: channel_open_frame_eq method_ids_def be_nat2)

lemma view_queue_declare:
  "queue_declare_frame cfg = Inr bs \<Longrightarrow> view (Sendall bs) = Method 50 10"
  by (auto simp: queue_declare_frame_def be_nat2 split: sum.splits
      dest!: queue_declare_ids dest: method_ids_frame)

text \<open>A run in which every socket call returns and every frame can be built.\<close>

lemma main_run:
  assumes "connect_error w (HOST cfg) (PORT cfg) = None"
    and "tx w = True # True # True # True # True # t"
    and "rx w = Some r1 # Some r2 # Some r3 # Some r4 # Some r5 # r"
    and "start_ok_frame cfg = Inr f1" and "open_frame cfg = Inr f2"
    and "queue_declare_frame cfg = Inr f4"
  shows "main cfg w =
     (Ret (), w\<lparr>tx := t, rx := r, trace := trace w @
        [Connect (HOST cfg) (PORT cfg), Sendall protocol_header, Recv (take 4096 r1),
         Sendall f1, Recv (take 4096 r2), Sendall f2, Recv (take 4096 r3),
         Sendall [1, 0, 1, 0, 0, 0, 4, 0, 20, 0, 10, 0xCE], Recv (take 4096 r4),
         Sendall f4, Recv (take 4096 r5), Print (take 4096 r5), Close]\<rparr>)"
  by (simp add: main_frames after_connect_def binds close_def assms channel_open_frame_eq)

lemma main_peer:
  assumes "connect_error (peer []) (HOST cfg) (PORT cfg) = None"
    and "start_ok_frame cfg = Inr f1" and "open_frame cfg = Inr f2"
    and "queue_declare_frame cfg = Inr f4"
  shows "main cfg (peer [r1, r2, r3, r4, r5]) =
     (Ret (), (peer [])\<lparr>trace :=
        [Connect (HOST cfg) (PORT cfg), Sendall protocol_header, Recv (take 4096 r1),
         Sendall f1, Recv (take 4096 r2), Sendall f2, Recv (take 4096 r3),
         Sendall [1, 0, 1, 0, 0, 0, 4, 0, 20, 0, 10, 0xCE], Recv (take 4096 r4),
         Sendall f4, Recv (take 4096 r5), Print (take 4096 r5), Close]\<rparr>)"
proof -
  have c: "connect_error (peer [r1, r2, r3, r4, r5]) (HOST cfg) (PORT cfg) = None"
    using assms(1) by (simp add: connect_error_peer[of "[r1, r2, r3, r4, r5]"])
  have "main cfg (peer [r1, r2, r3, r4, r5]) =
     (Ret (), (peer [r1, r2, r3, r4, r5])\<lparr>tx := [], rx := [],
        trace := trace (peer [r1, r2, r3, r4, r5]) @
        [Connect (HOST cfg) (PORT cfg), Sendall protocol_header, Recv (take 4096 r1),
         Sendall f1, Recv (take 4096 r2), Sendall f2, Recv (take 4096 r3),
         Sendall [1, 0, 1, 0, 0, 0, 4, 0, 20, 0, 10, 0xCE], Recv (take 4096 r4),
         Sendall f4, Recv (take 4096 r5), Print (take 4096 r5), Close]\<rparr>)"
    by (rule main_run[OF c _ _ assms(2-4)]) (simp_all add: peer_def)
  then show ?thesis by (simp add: peer_def)
qed

text \<open>The frames of the script as shipped.\<close>

lemma start_ok_source:
  "start_ok_frame source_config =
     Inr [1, 0, 0, 0, 0, 0, 36, 0, 10, 0, 11, 0, 12, 80, 76, 65, 73, 78, 0,
          0, 0, 20, 60, 117, 115, 101, 114, 62, 0, 60, 117, 115, 101, 114,
          62, 0, 60, 112, 97, 115, 115, 62, 0, 206]"
  by (simp add: start_ok_frame_def start_ok_method_def source_config_def str_def utf8_def
      plain_response_def frame_bytes_eq)

lemma open_source:
  "open_frame source_config =
     Inr [1, 0, 0, 0, 0, 0, 14, 0, 10, 0, 40, 7, 60, 118, 104, 111, 115,
          116, 62, 0, 0, 206]"
  by (simp add: open_frame_def open_method_def source_config_def str_def utf8_def
      frame_bytes_eq)

lemma queue_declare_source:
  "queue_declare_frame source_config =
     Inr [1, 0, 1, 0, 0, 0, 21, 0, 50, 0, 10, 0, 1, 0, 12, 60, 113, 117,
          101, 117, 101, 45, 110, 97, 109, 101, 62, 8, 206]"
  by (simp add: queue_declare_frame_def queue_declare_payload_def source_config_def str_def
      utf8_def frame_bytes_eq)

lemmas source_frames = start_ok_source open_source queue_declare_source

text \<open>The address of the script as shipped, \<^verbatim>\<open>("10.31.220.52", 5672)\<close>, passes the checks.\<close>

lemma labels_source: "labels (str ''10.31.220.52'') = [str ''10'', str ''31'', str ''220'', str ''52'']"
  by (simp add: str_def)

lemma source_connects:
  "connect_error (peer []) (HOST source_config) (PORT source_config) = None"
  by (simp add: connect_error_def idna_ok_def source_config_def labels_source peer_def)
    (simp add: str_def)

subsection \<open>What every run satisfies\<close>

lemma post_create:
  assumes "post (f ()) (\<lambda>r q. Q r (Connected # q))"
    and "Q (Raise OSError) []" and "Q (Raise UnicodeError) []" and "Q (Raise OverflowError) []"
  shows "post (io_bind (create_connection h p) f) Q"
  using assms unfolding post_def bind_create_connection
  by (auto split: option.splits dest!: connect_error_cases) fastforce

lemma post_sendall:
  assumes "view (Sendall bs) = l" and "post (f ()) (\<lambda>r q. Q r (l # q))"
    and "Q (Raise OSError) []" and "Q Block []"
  shows "post (io_bind (sendall bs) f) Q"
  using assms unfolding post_def bind_sendall
  by (auto split: list.splits if_splits) fastforce

lemma post_recv:
  assumes "\<And>x. post (f x) (\<lambda>r q. Q r (Received # q))"
    and "Q (Raise OSError) []" and "Q Block []"
  shows "post (io_bind (recv n) f) Q"
  using assms unfolding post_def bind_recv
  by (auto split: list.splits option.splits) fastforce

lemma post_lift:
  assumes "\<And>x. v = Inr x \<Longrightarrow> post (f x) Q" and "\<And>e. v = Inl e \<Longrightarrow> Q (Raise e) []"
  shows "post (io_bind (lift v) f) Q"
  using assms unfolding post_def bind_lift
  by (auto split: sum.splits)

lemma post_print:
  assumes "post (f ()) (\<lambda>r q. Q r (Printed # q))"
  shows "post (io_bind (print_bytes b) f) Q"
  using assms unfolding post_def bind_print
  by auto fastforce

lemma post_close: "Q (Ret ()) [Closed] \<Longrightarrow> post close Q"
  by (auto simp: post_def close_def)

lemma post_frame:
  assumes "\<And>bs. v = Inr bs \<Longrightarrow> view (Sendall bs) = l"
    and "\<And>bs. v = Inr bs \<Longrightarrow> post (f ()) (\<lambda>r q. Q r (l # q))"
    and "\<And>e. v = Inl e \<Longrightarrow> Q (Raise e) []"
    and "\<And>bs. v = Inr bs \<Longrightarrow> Q (Raise OSError) [] \<and> Q Block []"
  shows "post (io_bind (lift v) (\<lambda>bs. io_bind (sendall bs) f)) Q"
  using assms by (intro post_lift post_sendall[where l = l]) auto

lemma main_post:
  fixes Q :: "unit res \<Rightarrow> label list \<Rightarrow> bool"
  assumes c0: "Q (Raise OSError) [] \<and> Q (Raise UnicodeError) [] \<and> Q (Raise OverflowError) []"
    and s1: "\<And>r. sock_failure r \<Longrightarrow> Q r (take 1 script) \<and> Q r (take 2 script)"
    and p3: "\<And>e. start_ok_frame cfg = Inl e \<Longrightarrow> Q (Raise e) (take 3 script)"
    and s3: "\<And>r f1. sock_failure r \<Longrightarrow> start_ok_frame cfg = Inr f1 \<Longrightarrow>
               Q r (take 3 script) \<and> Q r (take 4 script)"
    and p5: "\<And>e f1. start_ok_frame cfg = Inr f1 \<Longrightarrow> open_frame cfg = Inl e \<Longrightarrow>
               Q (Raise e) (take 5 script)"
    and s5: "\<And>r f1 f2. sock_failure r \<Longrightarrow> start_ok_frame cfg = Inr f1 \<Longrightarrow>
               open_frame cfg = Inr f2 \<Longrightarrow>
               Q r (take 5 script) \<and> Q r (take 6 script) \<and> Q r (take 7 script)
               \<and> Q r (take 8 script)"
    and p9: "\<And>e f1 f2. start_ok_frame cfg = Inr f1 \<Longrightarrow> open_frame cfg = Inr f2 \<Longrightarrow>
               queue_declare_frame cfg = Inl e \<Longrightarrow> Q (Raise e) (take 9 script)"
    and s9: "\<And>r f1 f2 f4. sock_failure r \<Longrightarrow> start_ok_frame cfg = Inr f1 \<Longrightarrow>
               open_frame cfg = Inr f2 \<Longrightarrow> queue_declare_frame cfg = Inr f4 \<Longrightarrow>
               Q r (take 9 script) \<and> Q r (take 10 script)"
    and fin: "\<And>f1 f2 f4. start_ok_frame cfg = Inr f1 \<Longrightarrow> open_frame cfg = Inr f2 \<Longrightarrow>
               queue_declare_frame cfg = Inr f4 \<Longrightarrow> Q (Ret ()) script"
  shows "post (main cfg) Q"
  unfolding main_frames after_connect_def
  apply (rule post_create)
   apply (rule post_sendall[where l = "Raw protocol_header"])
      apply (rule view_header)
     apply (rule post_recv)
       apply (rule post_frame[where l = "Method 10 11"])
          apply (erule view_start_ok)
         apply (rule post_recv)
           apply (rule post_frame[where l = "Method 10 40"])
              apply (erule view_open)
             apply (rule post_recv)
               apply (rule post_frame[where l = "Method 20 10"])
                  apply (erule view_channel_open)
                 apply (rule post_recv)
                   apply (rule post_frame[where l = "Method 50 10"])
                      apply (erule view_queue_declare)
                     apply (rule post_recv)
                       apply (rule post_print)
                       apply (rule post_close)
  using c0 s1[of "Raise OSError"] s1[of Block] p3 s3[of "Raise OSError"] s3[of Block]
    p5 s5[of "Raise OSError"] s5[of Block] p9 s9[of "Raise OSError"] s9[of Block] fin
                      apply (simp_all add: script_def protocol_header_def sock_failure_def
      channel_open_frame_eq)
  done

lemma main_outcome:
  assumes "post (main cfg) Q" and "trace w = []" and "main cfg w = (r, w')"
  shows "Q r (map view (trace w'))"
  using assms unfolding post_def by fastforce

subsection \<open>Which frames can be built\<close>

lemma encode_ascii: "\<forall>c\<in>set cs. c < 128 \<Longrightarrow> encode cs = Inr (map of_nat cs)"
  by (induction cs) (simp_all add: utf8_def)

lemma encode_error: "encode cs = Inl e \<Longrightarrow> e = UnicodeEncodeError"
  by (induction cs) (auto simp: utf8_def split: sum.splits if_splits)

lemma start_ok_frame_error:
  "start_ok_frame cfg = Inl e \<Longrightarrow> e = UnicodeEncodeError \<or> e = StructError I"
  by (auto simp: start_ok_frame_def start_ok_method_def frame_bytes_eq Let_def
      split: sum.splits if_splits dest: encode_error)

lemma open_frame_long:
  "encode (VHOST cfg) = Inr v \<Longrightarrow> 255 < length v \<Longrightarrow> open_frame cfg = Inl (StructError B)"
  by (simp add: open_frame_def open_method_def)

lemma open_frame_short:
  "encode (VHOST cfg) = Inr v \<Longrightarrow> length v \<le> 255 \<Longrightarrow> \<exists>f. open_frame cfg = Inr f"
  by (simp add: open_frame_def open_method_def frame_bytes_eq)

lemma queue_declare_frame_long:
  "encode (QUEUE cfg) = Inr q \<Longrightarrow> 255 < length q \<Longrightarrow>
   queue_declare_frame cfg = Inl (StructError B)"
  by (simp add: queue_declare_frame_def queue_declare_payload_def)

lemma queue_declare_frame_short:
  "encode (QUEUE cfg) = Inr q \<Longrightarrow> length q \<le> 255 \<Longrightarrow> \<exists>f. queue_declare_frame cfg = Inr f"
  by (simp add: queue_declare_frame_def queue_declare_payload_def frame_bytes_eq)

lemma guard_vhost:
  assumes "encode (VHOST cfg) = Inr v" and "255 < length v"
  shows "post (main cfg) (\<lambda>r q. r \<noteq> Ret () \<and> prefix q (take 5 script)
           \<and> Method 10 40 \<notin> set q \<and> (length q = 5 \<longrightarrow> r = Raise (StructError B)))"
  by (rule main_post)
    (auto simp: sock_failure_def script_def open_frame_long[OF assms])

lemma guard_queue:
  assumes "encode (QUEUE cfg) = Inr q" and "255 < length q"
  shows "post (main cfg) (\<lambda>r q. r \<noteq> Ret () \<and> prefix q (take 9 script)
           \<and> Method 50 10 \<notin> set q \<and> (length q = 9 \<longrightarrow> r = Raise (StructError B)))"
  by (rule main_post)
    (auto simp: sock_failure_def script_def queue_declare_frame_long[OF assms])

lemma guard_none:
  assumes "encode (VHOST cfg) = Inr v" and "length v \<le> 255"
    and "encode (QUEUE cfg) = Inr q" and "length q \<le> 255"
  shows "post (main cfg) (\<lambda>r q. r \<noteq> Raise (StructError B))"
  using open_frame_short[OF assms(1,2)] queue_declare_frame_short[OF assms(3,4)]
  by (intro main_post) (auto simp: sock_failure_def dest: start_ok_frame_error)

subsection \<open>Runs that stop at a frame that cannot be built\<close>

lemma start_ok_frame_cong:
  assumes "USER c1 = USER c2" and "PASS c1 = PASS c2"
  shows "start_ok_frame c1 = start_ok_frame c2"
  unfolding start_ok_frame_def start_ok_method_def assms ..

lemma open_frame_cong: "VHOST c1 = VHOST c2 \<Longrightarrow> open_frame c1 = open_frame c2"
  by (simp add: open_frame_def open_method_def)

lemma main_stops_at_open:
  assumes "connect_error (peer []) (HOST cfg) (PORT cfg) = None"
    and "start_ok_frame cfg = Inr f1" and "open_frame cfg = Inl e"
  shows "main cfg (peer [r1, r2]) =
     (Raise e, (peer [])\<lparr>trace :=
        [Connect (HOST cfg) (PORT cfg), Sendall protocol_header, Recv (take 4096 r1),
         Sendall f1, Recv (take 4096 r2)]\<rparr>)"
proof -
  have "connect_error (peer [r1, r2]) (HOST cfg) (PORT cfg) = None"
    using assms(1) by (simp add: connect_error_peer[of "[r1, r2]"])
  then show ?thesis
    unfolding main_frames after_connect_def bind_create_connection
    by (simp add: binds assms(2,3) peer_def)
qed

lemma main_stops_at_queue_declare:
  assumes "start_ok_frame cfg = Inr f1" and "open_frame cfg = Inr f2"
    and "queue_declare_frame cfg = Inl e"
    and "connect_error (peer []) (HOST cfg) (PORT cfg) = None"
  shows "main cfg (peer [r1, r2, r3, r4]) =
     (Raise e, (peer [])\<lparr>trace :=
        [Connect (HOST cfg) (PORT cfg), Sendall protocol_header, Recv (take 4096 r1),
         Sendall f1, Recv (take 4096 r2), Sendall f2, Recv (take 4096 r3),
         Sendall [1, 0, 1, 0, 0, 0, 4, 0, 20, 0, 10, 0xCE], Recv (take 4096 r4)]\<rparr>)"
proof -
  have "connect_error (peer [r1, r2, r3, r4]) (HOST cfg) (PORT cfg) = None"
    using assms(4) by (simp add: connect_error_peer[of "[r1, r2, r3, r4]"])
  then show ?thesis
    unfolding main_frames after_connect_def bind_create_connection
    by (simp add: binds assms(1-3) peer_def channel_open_frame_eq)
qed

lemma encode_replicate: "c < 128 \<Longrightarrow> encode (replicate n c) = Inr (replicate n (of_nat c))"
  by (induction n) (simp_all add: utf8_def)

lemma encode_long_name: "encode long_name = Inr (replicate 256 97)"
  unfolding long_name_def by (simp add: encode_replicate)

lemma encode_source_vhost: "encode (VHOST source_config) = Inr [60, 118, 104, 111, 115, 116, 62]"
  by (simp add: source_config_def str_def utf8_def)

lemma encode_source_queue:
  "encode (QUEUE source_config) = Inr [60, 113, 117, 101, 117, 101, 45, 110, 97, 109, 101, 62]"
  by (simp add: source_config_def str_def utf8_def)

lemma open_frame_long_vhost:
  "open_frame (source_config\<lparr>VHOST := long_name\<rparr>) = Inl (StructError B)"
  by (rule open_frame_long[where v = "replicate 256 97"]) (simp_all add: encode_long_name)

lemma queue_declare_frame_long_queue:
  "queue_declare_frame (source_config\<lparr>QUEUE := long_name\<rparr>) = Inl (StructError B)"
  by (rule queue_declare_frame_long[where q = "replicate 256 97"])
      (simp_all add: encode_long_name)

lemma run_long_vhost:
  "main (source_config\<lparr>VHOST := long_name\<rparr>) (peer [[], []]) =
     (Raise (StructError B), (peer [])\<lparr>trace :=
        [Connect (HOST source_config) (PORT source_config), Sendall protocol_header, Recv [],
         Sendall [1, 0, 0, 0, 0, 0, 36, 0, 10, 0, 11, 0, 12, 80, 76, 65, 73, 78, 0,
          0, 0, 20, 60, 117, 115, 101, 114, 62, 0, 60, 117, 115, 101, 114,
          62, 0, 60, 112, 97, 115, 115, 62, 0, 206], Recv []]\<rparr>)"
proof -
  have s: "start_ok_frame (source_config\<lparr>VHOST := long_name\<rparr>) = start_ok_frame source_config"
    by (rule start_ok_frame_cong) simp_all
  have c: "connect_error (peer []) (HOST (source_config\<lparr>VHOST := long_name\<rparr>))
             (PORT (source_config\<lparr>VHOST := long_name\<rparr>)) = None"
    using source_connects by simp
  show ?thesis
    using main_stops_at_open[OF c s[unfolded start_ok_source] open_frame_long_vhost,
        of "[]" "[]"]
    by simp
qed

lemma run_long_queue:
  "main (source_config\<lparr>QUEUE := long_name\<rparr>) (peer [[], [], [], []]) =
     (Raise (StructError B), (peer [])\<lparr>trace :=
        [Connect (HOST source_config) (PORT source_config), Sendall protocol_header, Recv [],
         Sendall [1, 0, 0, 0, 0, 0, 36, 0, 10, 0, 11, 0, 12, 80, 76, 65, 73, 78, 0,
          0, 0, 20, 60, 117, 115, 101, 114, 62, 0, 60, 117, 115, 101, 114,
          62, 0, 60, 112, 97, 115, 115, 62, 0, 206], Recv [],
         Sendall [1, 0, 0, 0, 0, 0, 14, 0, 10, 0, 40, 7, 60, 118, 104, 111, 115,
          116, 62, 0, 0, 206], Recv [],
         Sendall [1, 0, 1, 0, 0, 0, 4, 0, 20, 0, 10, 0xCE], Recv []]\<rparr>)"
proof -
  have s: "start_ok_frame (source_config\<lparr>QUEUE := long_name\<rparr>) = start_ok_frame source_config"
    by (rule start_ok_frame_cong) simp_all
  have v: "open_frame (source_config\<lparr>QUEUE := long_name\<rparr>) = open_frame source_config"
    by (rule open_frame_cong) simp
  have c: "connect_error (peer []) (HOST (source_config\<lparr>QUEUE := long_name\<rparr>))
             (PORT (source_config\<lparr>QUEUE := long_name\<rparr>)) = None"
    using source_connects by simp
  show ?thesis
    using main_stops_at_queue_declare[OF s[unfolded start_ok_source] v[unfolded open_source]
        queue_declare_frame_long_queue c, of "[]" "[]" "[]" "[]"]
    by simp
qed

section \<open>The one-byte length of the short strings\<close>

text \<open>
  C10. The virtual host and the queue name go out behind a length packed with
  \<^verbatim>\<open>struct.pack('!B', ...)\<close>. When the encoded virtual host is longer than 255 bytes, no
  run ends normally, none gets beyond the first five events (connect, header, receive,
  start-ok, receive), none sends a connection.open frame, and a run that gets that far
  ends with \<^verbatim>\<open>struct.error\<close> on the \<^verbatim>\<open>B\<close> field. The same holds for the queue name, the
  first nine events and the queue.declare frame. When both are at most 255 bytes long,
  no run ends with \<^verbatim>\<open>struct.error\<close> on a \<^verbatim>\<open>B\<close> field.
\<close>

theorem short_string_length_guard:
  assumes "encode (VHOST cfg) = Inr v" and "encode (QUEUE cfg) = Inr q"
    and "trace w = []" and "main cfg w = (r, w')"
  shows "(255 < length v \<longrightarrow>
            r \<noteq> Ret () \<and> prefix (map view (trace w')) (take 5 script)
            \<and> Method 10 40 \<notin> set (map view (trace w'))
            \<and> (length (trace w') = 5 \<longrightarrow> r = Raise (StructError B)))
       \<and> (length v \<le> 255 \<and> 255 < length q \<longrightarrow>
            r \<noteq> Ret () \<and> prefix (map view (trace w')) (take 9 script)
            \<and> Method 50 10 \<notin> set (map view (trace w'))
            \<and> (length (trace w') = 9 \<longrightarrow> r = Raise (StructError B)))
       \<and> (length v \<le> 255 \<and> length q \<le> 255 \<longrightarrow> r \<noteq> Raise (StructError B))"
  using main_outcome[OF guard_vhost[OF assms(1)] assms(3,4)]
    main_outcome[OF guard_queue[OF assms(2)] assms(3,4)]
    main_outcome[OF guard_none[OF assms(1) _ assms(2)] assms(3,4)]
  by auto

text \<open>
  The script with a virtual host of 256 letters stops with \<^verbatim>\<open>struct.error\<close> after the
  second receive; with a queue name of 256 letters, after the fourth; as shipped, it
  never raises \<^verbatim>\<open>struct.error\<close> on a \<^verbatim>\<open>B\<close> field.
\<close>

theorem short_string_length_guard_witness:
  "fst (main (source_config\<lparr>VHOST := long_name\<rparr>) (peer [[], []])) = Raise (StructError B)
   \<and> Method 10 40 \<notin> set (map view (trace (snd
         (main (source_config\<lparr>VHOST := long_name\<rparr>) (peer [[], []])))))
   \<and> fst (main (source_config\<lparr>QUEUE := long_name\<rparr>) (peer [[], [], [], []]))
       = Raise (StructError B)
   \<and> Method 50 10 \<notin> set (map view (trace (snd
         (main (source_config\<lparr>QUEUE := long_name\<rparr>) (peer [[], [], [], []])))))
   \<and> fst (main source_config (peer [[], [], [], [], []])) \<noteq> Raise (StructError B)"
proof -
  let ?cv = "source_config\<lparr>VHOST := long_name\<rparr>"
  let ?cq = "source_config\<lparr>QUEUE := long_name\<rparr>"
  have ev: "encode (VHOST ?cv) = Inr (replicate 256 97)"
    and eq: "encode (QUEUE ?cq) = Inr (replicate 256 97)"
    by (simp_all add: encode_long_name)
  have eqv: "encode (QUEUE ?cv) = Inr [60, 113, 117, 101, 117, 101, 45, 110, 97, 109, 101, 62]"
    and evq: "encode (VHOST ?cq) = Inr [60, 118, 104, 111, 115, 116, 62]"
    using encode_source_queue encode_source_vhost by simp_all
  have t2: "trace (peer [[], []]) = []" and t4: "trace (peer [[], [], [], []]) = []"
    and t5: "trace (peer [[], [], [], [], []]) = []"
    by (simp_all add: peer_def)
  have a: "fst (main ?cv (peer [[], []])) = Raise (StructError B)
           \<and> Method 10 40 \<notin> set (map view (trace (snd (main ?cv (peer [[], []])))))"
    using short_string_length_guard[OF ev eqv t2 run_long_vhost]
    by (simp add: run_long_vhost)
  have b: "fst (main ?cq (peer [[], [], [], []])) = Raise (StructError B)
           \<and> Method 50 10 \<notin> set (map view (trace (snd (main ?cq (peer [[], [], [], []])))))"
    using short_string_length_guard[OF evq eq t4 run_long_queue]
    by (simp add: run_long_queue)
  have c: "fst (main source_config (peer [[], [], [], [], []])) \<noteq> Raise (StructError B)"
    using short_string_length_guard[OF encode_source_vhost encode_source_queue t5,
        of "fst (main source_config (peer [[], [], [], [], []]))"
           "snd (main source_config (peer [[], [], [], [], []]))"]
    by simp
  from a b c show ?thesis by simp
qed

section \<open>The order of the handshake\<close>






section \<open>What the script does with the responses\<close>




section \<open>A server that closes after start-ok\<close>





section \<open>What is sent does not depend on what is received\<close>

lemma sent_append: "sent (xs @ ys) = sent xs @ sent ys"
  by (induction xs rule: sent.induct) simp_all

lemma rel_bind:
  assumes m: "rel R m1 m2" and f: "\<And>x y. R x y \<Longrightarrow> rel S (f1 x) (f2 y)"
  shows "rel S (io_bind m1 f1) (io_bind m2 f2)"
  unfolding rel_def
proof (intro allI impI)
  fix w1 w2 assume s: "sim w1 w2"
  obtain r1 v1 r2 v2 where e: "m1 w1 = (r1, v1)" "m2 w2 = (r2, v2)"
    by (cases "m1 w1", cases "m2 w2") auto
  from m s e have rr: "res_rel R r1 r2" and sv: "sim v1 v2"
    unfolding rel_def by force+
  show "res_rel S (fst (io_bind m1 f1 w1)) (fst (io_bind m2 f2 w2)) \<and>
        sim (snd (io_bind m1 f1 w1)) (snd (io_bind m2 f2 w2))"
  proof (cases r1)
    case (Ret x)
    with rr obtain y where y: "r2 = Ret y" "R x y"
      by (auto simp: res_rel_def split: res.splits)
    from f[OF y(2)] sv have "res_rel S (fst (f1 x v1)) (fst (f2 y v2)) \<and>
        sim (snd (f1 x v1)) (snd (f2 y v2))"
      unfolding rel_def by blast
    with Ret y e show ?thesis by (simp add: io_bind_def)
  next
    case (Raise x)
    with rr have "r2 = Raise x" by (simp add: res_rel_def)
    with Raise e sv show ?thesis by (simp add: io_bind_def res_rel_def)
  next
    case Block
    with rr have "r2 = Block" by (simp add: res_rel_def)
    with Block e sv show ?thesis by (simp add: io_bind_def res_rel_def)
  qed
qed

lemma rel_sendall: "rel (=) (sendall bs) (sendall bs)"
  by (auto simp: rel_def sim_def shape_def res_rel_def sendall_def sent_append
      split: list.splits)

lemma rel_recv: "rel (\<lambda>_ _. True) (recv n) (recv n)"
  by (auto simp: rel_def sim_def shape_def res_rel_def recv_def sent_append
      split: list.splits option.splits)

lemma rel_lift: "rel (=) (lift v) (lift v)"
  by (auto simp: rel_def res_rel_def lift_def split: sum.splits)

lemma rel_print: "rel (=) (print_bytes a) (print_bytes b)"
  by (auto simp: rel_def sim_def shape_def res_rel_def print_bytes_def sent_append)

lemma rel_close: "rel (=) close close"
  by (auto simp: rel_def sim_def shape_def res_rel_def close_def sent_append)

lemma rel_bind_lift:
  assumes "\<And>x. rel S (f1 x) (f2 x)"
  shows "rel S (io_bind (lift v) f1) (io_bind (lift v) f2)"
  by (rule rel_bind[OF rel_lift]) (simp add: assms)

lemma rel_after_connect:
  assumes "start_ok_frame c1 = start_ok_frame c2" and "open_frame c1 = open_frame c2"
    and "queue_declare_frame c1 = queue_declare_frame c2"
  shows "rel (=) (after_connect c1) (after_connect c2)"
  unfolding after_connect_def assms
  by (intro rel_bind[OF rel_sendall] rel_bind[OF rel_recv] rel_bind_lift
      rel_bind[OF rel_print] rel_close)

lemma queue_declare_frame_cong:
  assumes "QUEUE c1 = QUEUE c2"
  shows "queue_declare_frame c1 = queue_declare_frame c2"
  unfolding queue_declare_frame_def queue_declare_payload_def assms ..

text \<open>
  C9. Two runs whose worlds differ only in the bytes the receives deliver, whose
  connections end the same way, and whose configurations agree on USER, PASS, VHOST and
  QUEUE, pass the same byte strings to \<^verbatim>\<open>sendall\<close>, in the same order, and end the same
  way.
\<close>

theorem sent_independent_of_received:
  assumes "shape w1 = shape w2" and "sent (trace w1) = sent (trace w2)"
    and "connect_error w1 (HOST c1) (PORT c1) = connect_error w2 (HOST c2) (PORT c2)"
    and "USER c1 = USER c2" and "PASS c1 = PASS c2" and "VHOST c1 = VHOST c2"
    and "QUEUE c1 = QUEUE c2"
  shows "sent (trace (snd (main c1 w1))) = sent (trace (snd (main c2 w2)))
       \<and> fst (main c1 w1) = fst (main c2 w2)"
proof (cases "connect_error w2 (HOST c2) (PORT c2)")
  case (Some e)
  with assms(2,3) show ?thesis
    by (simp add: main_frames bind_create_connection)
next
  case None
  let ?v1 = "w1\<lparr>trace := trace w1 @ [Connect (HOST c1) (PORT c1)]\<rparr>"
  let ?v2 = "w2\<lparr>trace := trace w2 @ [Connect (HOST c2) (PORT c2)]\<rparr>"
  have m: "main c1 w1 = after_connect c1 ?v1" "main c2 w2 = after_connect c2 ?v2"
    using None assms(3) by (simp_all add: main_frames bind_create_connection)
  have "rel (=) (after_connect c1) (after_connect c2)"
    using assms(4-7)
    by (intro rel_after_connect start_ok_frame_cong open_frame_cong queue_declare_frame_cong)
  moreover have "sim ?v1 ?v2"
    using assms(1,2) by (simp add: sim_def shape_def sent_append)
  ultimately have "res_rel (=) (fst (main c1 w1)) (fst (main c2 w2))"
    and "sim (snd (main c1 w1)) (snd (main c2 w2))"
    unfolding rel_def m by blast+
  then show ?thesis by (auto simp: sim_def res_rel_def split: res.splits)
qed

text \<open>Two peers that answer every receive with different bytes.\<close>

theorem sent_independent_of_received_witness:
  "sent (trace (snd (main source_config (peer [[1], [2], [3], [4], [5]]))))
     = sent (trace (snd (main (source_config\<lparr>PORT := 5671\<rparr>)
         (peer [[9], [8, 8], [], [7], [6, 6, 6]]))))
   \<and> fst (main source_config (peer [[1], [2], [3], [4], [5]]))
     = fst (main (source_config\<lparr>PORT := 5671\<rparr>) (peer [[9], [8, 8], [], [7], [6, 6, 6]]))
   \<and> fst (main source_config (peer [[1], [2], [3], [4], [5]])) = Ret ()"
proof -
  have r: "fst (main source_config (peer [[1], [2], [3], [4], [5]])) = Ret ()"
    by (simp add: main_peer[OF source_connects source_frames])
  have c: "connect_error (peer [[1], [2], [3], [4], [5]]) (HOST source_config)
             (PORT source_config)
           = connect_error (peer [[9], [8, 8], [], [7], [6, 6, 6]])
               (HOST (source_config\<lparr>PORT := 5671\<rparr>)) (PORT (source_config\<lparr>PORT := 5671\<rparr>))"
    using source_connects
    by (simp add: connect_error_peer[of "[[1], [2], [3], [4], [5]]"]
        connect_error_peer[of "[[9], [8, 8], [], [7], [6, 6, 6]]"])
      (simp add: connect_error_def split: if_splits)
  from r sent_independent_of_received[of "peer [[1], [2], [3], [4], [5]]"
      "peer [[9], [8, 8], [], [7], [6, 6, 6]]" source_config "source_config\<lparr>PORT := 5671\<rparr>",
      OF _ _ c]
  show ?thesis by (simp add: shape_def peer_def)
qed

end
